theory Spec2Isabelle
  imports Complex_Main
begin

section \<open>Nitrogen estimation for winter wheat: the estimator of \<open>n_estimator.py\<close>\<close>

text \<open>
  The module \<open>wheat_n_estimation/n_estimator.py\<close> turns a dictionary of vegetation
  indices into a nitrogen estimate. Python floats are modelled as the real numbers they
  denote (finite values, exact arithmetic): rounding, infinities and NaN are outside
  this first model; a second model of the \<open>n_content\<close> computation, further down, adds
  overflow, the infinities and NaN. A dictionary from index names to values is a map \<open>string \<rightharpoonup> real\<close>; the
  dictionaries the function builds keep Python's insertion order, so they are
  association lists. \<open>raise ValueError(...)\<close> is the left injection of a sum.
\<close>

subsection \<open>Data\<close>

type_synonym index_map = "string \<rightharpoonup> real"

datatype error = ValueError string

text \<open>One entry of \<open>confidence_intervals\<close>: the keys \<open>'estimate'\<close>, \<open>'rmse'\<close>, \<open>'r2'\<close>.\<close>

record confidence_interval =
  ci_estimate :: real
  ci_rmse :: real
  ci_r2 :: real

text \<open>The dictionary under the key \<open>'uncertainty'\<close>.\<close>

record uncertainty_metrics =
  rmse :: real
  r2_mean :: real
  sample_size :: nat

text \<open>The dictionary that \<open>estimate_n_content_from_indices\<close> returns.\<close>

record estimation_result =
  n_content :: real
  confidence_intervals :: "(string \<times> confidence_interval) list"
  uncertainty :: uncertainty_metrics
  method_weights :: "(string \<times> real) list"

subsection \<open>The numpy and builtin helpers the function calls\<close>

text \<open>\<open>np.clip(x, lo, hi)\<close> on a scalar: \<open>minimum(maximum(x, lo), hi)\<close>.\<close>

definition clip :: "real \<Rightarrow> real \<Rightarrow> real \<Rightarrow> real" where
  "clip x lo hi = min (max x lo) hi"

text \<open>\<open>np.mean\<close> of a list; it is only called on a non-empty list here.\<close>

definition mean :: "real list \<Rightarrow> real" where
  "mean xs = sum_list xs / real (length xs)"

subsection \<open>\<open>NitrogenEstimator.estimate_n_content_from_indices\<close>\<close>

text \<open>
  The three method blocks append to the two accumulators \<open>n_estimates\<close> (a list of
  triples name, estimate, weight) and \<open>confidence_intervals\<close>, each guarded by
  \<open>if KEY in indices\<close>.
\<close>

type_synonym estimates = "(string \<times> real \<times> real) list"
type_synonym accumulators = "estimates \<times> (string \<times> confidence_interval) list"

definition ndre_block :: "index_map \<Rightarrow> accumulators \<Rightarrow> accumulators" where
  "ndre_block indices acc =
     (case indices ''NDRE'' of
        None \<Rightarrow> acc
      | Some ndre \<Rightarrow>
          (let ndre_n = 4.14 * ndre + 0.42
           in (fst acc @ [(''NDRE'', ndre_n, 0.89)],
               snd acc @ [(''NDRE'', \<lparr>ci_estimate = ndre_n, ci_rmse = 0.31, ci_r2 = 0.89\<rparr>)])))"

definition ci_block :: "index_map \<Rightarrow> accumulators \<Rightarrow> accumulators" where
  "ci_block indices acc =
     (case indices ''CIred-edge'' of
        None \<Rightarrow> acc
      | Some ci \<Rightarrow>
          (let ci_n = 2.88 * ci + 0.97
           in (fst acc @ [(''CIred-edge'', ci_n, 0.87)],
               snd acc @ [(''CIred-edge'', \<lparr>ci_estimate = ci_n, ci_rmse = 0.34, ci_r2 = 0.87\<rparr>)])))"

definition mcari_block :: "index_map \<Rightarrow> accumulators \<Rightarrow> accumulators" where
  "mcari_block indices acc =
     (case indices ''MCARI'' of
        None \<Rightarrow> acc
      | Some mcari \<Rightarrow>
          (let mcari_n = 3.52 * mcari + 1.12
           in (fst acc @ [(''MCARI'', mcari_n, 0.83)],
               snd acc @ [(''MCARI'', \<lparr>ci_estimate = mcari_n, ci_rmse = 0.39, ci_r2 = 0.83\<rparr>)])))"

text \<open>The SAVI block: \<open>savi_correction\<close> starts at 1.0 and is changed only when SAVI is present.\<close>

definition savi_correction :: "index_map \<Rightarrow> real" where
  "savi_correction indices =
     (case indices ''SAVI'' of
        None \<Rightarrow> 1.0
      | Some savi \<Rightarrow> if savi < 0.2 then 0.85 else if savi > 0.7 then 1.12 else 1.0)"

definition estimate_n_content_from_indices :: "index_map \<Rightarrow> error + estimation_result" where
  "estimate_n_content_from_indices indices =
     (let acc = mcari_block indices (ci_block indices (ndre_block indices ([], [])));
          n_estimates = fst acc;
          cis = snd acc;
          correction = savi_correction indices
      in if n_estimates \<noteq> [] then
           (let total_weight = sum_list (map (\<lambda>(_, _, weight). weight) n_estimates);
                weighted_n = sum_list (map (\<lambda>(_, est, weight). est * weight) n_estimates) / total_weight;
                n = clip (weighted_n * correction) 1.5 6.0;
                rmse_weighted = sqrt (mean (map (\<lambda>(_, ci). (ci_rmse ci)\<^sup>2) cis));
                r2m = mean (map (\<lambda>(_, ci). ci_r2 ci) cis)
            in Inr \<lparr>n_content = n,
                    confidence_intervals = cis,
                    uncertainty = \<lparr>rmse = rmse_weighted, r2_mean = r2m,
                                   sample_size = length n_estimates\<rparr>,
                    method_weights = map (\<lambda>(name, _, weight). (name, weight / total_weight)) n_estimates\<rparr>)
         else Inl (ValueError ''No valid indices available for N content estimation''))"

subsection \<open>The \<open>n_content\<close> computation on doubles with overflow, infinities and NaN\<close>

text \<open>
  A double is a finite value, one of the two infinities, or NaN. A finite result is kept
  as the exact real (rounding is not modelled) unless it overflows: under round to
  nearest, a result of magnitude \<open>2\<^sup>1\<^sup>0\<^sup>2\<^sup>4 - 2\<^sup>9\<^sup>7\<^sup>0\<close> or more becomes an infinity.
  Signed zeros are not distinguished.
\<close>

datatype double = Fin real | PInf | NInf | NaN

definition overflow_threshold :: real where
  "overflow_threshold = 2 ^ 1024 - 2 ^ 970"

definition fl_round :: "real \<Rightarrow> double" where
  "fl_round x =
     (if overflow_threshold \<le> x then PInf
      else if x \<le> - overflow_threshold then NInf
      else Fin x)"

text \<open>Addition and multiplication of doubles: NaN propagates, \<open>inf - inf\<close> and \<open>inf \<sqdot> 0\<close> are NaN.\<close>

fun fl_add :: "double \<Rightarrow> double \<Rightarrow> double" where
  "fl_add NaN _ = NaN"
| "fl_add _ NaN = NaN"
| "fl_add PInf NInf = NaN"
| "fl_add NInf PInf = NaN"
| "fl_add PInf _ = PInf"
| "fl_add _ PInf = PInf"
| "fl_add NInf _ = NInf"
| "fl_add _ NInf = NInf"
| "fl_add (Fin a) (Fin b) = fl_round (a + b)"

fun fl_mul :: "double \<Rightarrow> double \<Rightarrow> double" where
  "fl_mul NaN _ = NaN"
| "fl_mul _ NaN = NaN"
| "fl_mul (Fin a) (Fin b) = fl_round (a * b)"
| "fl_mul (Fin a) PInf = (if a = 0 then NaN else if 0 < a then PInf else NInf)"
| "fl_mul (Fin a) NInf = (if a = 0 then NaN else if 0 < a then NInf else PInf)"
| "fl_mul PInf (Fin b) = (if b = 0 then NaN else if 0 < b then PInf else NInf)"
| "fl_mul NInf (Fin b) = (if b = 0 then NaN else if 0 < b then NInf else PInf)"
| "fl_mul PInf PInf = PInf"
| "fl_mul PInf NInf = NInf"
| "fl_mul NInf PInf = NInf"
| "fl_mul NInf NInf = PInf"

text \<open>
  Division of a double by a finite non-zero divisor. The only division of the function
  is by \<open>total_weight\<close>, a sum of the positive literal weights of a non-empty list.
\<close>

fun fl_div_by :: "double \<Rightarrow> real \<Rightarrow> double" where
  "fl_div_by NaN d = NaN"
| "fl_div_by PInf d = (if 0 < d then PInf else NInf)"
| "fl_div_by NInf d = (if 0 < d then NInf else PInf)"
| "fl_div_by (Fin a) d = fl_round (a / d)"

text \<open>The comparison \<open><\<close> on doubles: every comparison with NaN is false.\<close>

fun fl_less :: "double \<Rightarrow> double \<Rightarrow> bool" where
  "fl_less NaN _ = False"
| "fl_less _ NaN = False"
| "fl_less (Fin a) (Fin b) = (a < b)"
| "fl_less NInf NInf = False"
| "fl_less NInf _ = True"
| "fl_less PInf _ = False"
| "fl_less (Fin a) PInf = True"
| "fl_less (Fin a) NInf = False"

text \<open>
  \<open>np.clip(x, lo, hi)\<close> on a double with finite bounds: \<open>np.maximum\<close> and \<open>np.minimum\<close>
  propagate NaN, the infinities are cut to the bounds.
\<close>

fun fl_clip :: "double \<Rightarrow> real \<Rightarrow> real \<Rightarrow> double" where
  "fl_clip NaN lo hi = NaN"
| "fl_clip PInf lo hi = Fin hi"
| "fl_clip NInf lo hi = Fin (min lo hi)"
| "fl_clip (Fin x) lo hi = Fin (min (max x lo) hi)"

type_synonym ieee_map = "string \<rightharpoonup> double"
type_synonym ieee_estimates = "(string \<times> double \<times> real) list"

text \<open>
  The three method blocks on doubles. Only the list \<open>n_estimates\<close> is kept, as
  \<open>n_content\<close> is computed from it alone; the weights are the literals of the source.
\<close>

definition ndre_block_ieee :: "ieee_map \<Rightarrow> ieee_estimates \<Rightarrow> ieee_estimates" where
  "ndre_block_ieee indices n_estimates =
     (case indices ''NDRE'' of
        None \<Rightarrow> n_estimates
      | Some ndre \<Rightarrow> n_estimates @ [(''NDRE'', fl_add (fl_mul (Fin 4.14) ndre) (Fin 0.42), 0.89)])"

definition ci_block_ieee :: "ieee_map \<Rightarrow> ieee_estimates \<Rightarrow> ieee_estimates" where
  "ci_block_ieee indices n_estimates =
     (case indices ''CIred-edge'' of
        None \<Rightarrow> n_estimates
      | Some ci \<Rightarrow> n_estimates @ [(''CIred-edge'', fl_add (fl_mul (Fin 2.88) ci) (Fin 0.97), 0.87)])"

definition mcari_block_ieee :: "ieee_map \<Rightarrow> ieee_estimates \<Rightarrow> ieee_estimates" where
  "mcari_block_ieee indices n_estimates =
     (case indices ''MCARI'' of
        None \<Rightarrow> n_estimates
      | Some mcari \<Rightarrow> n_estimates @ [(''MCARI'', fl_add (fl_mul (Fin 3.52) mcari) (Fin 1.12), 0.83)])"

text \<open>The SAVI block; \<open>savi > 0.7\<close> is \<open>0.7 < savi\<close>.\<close>

definition savi_correction_ieee :: "ieee_map \<Rightarrow> real" where
  "savi_correction_ieee indices =
     (case indices ''SAVI'' of
        None \<Rightarrow> 1.0
      | Some savi \<Rightarrow>
          if fl_less savi (Fin 0.2) then 0.85 else if fl_less (Fin 0.7) savi then 1.12 else 1.0)"

text \<open>
  The value the function stores under \<open>'n_content'\<close>, or the error it raises. Python's
  \<open>sum\<close> adds from the left, starting at 0.
\<close>

definition n_content_ieee :: "ieee_map \<Rightarrow> error + double" where
  "n_content_ieee indices =
     (let n_estimates = mcari_block_ieee indices (ci_block_ieee indices (ndre_block_ieee indices []));
          correction = savi_correction_ieee indices
      in if n_estimates \<noteq> [] then
           (let total_weight = sum_list (map (\<lambda>(_, _, weight). weight) n_estimates);
                weighted_n =
                  fl_div_by (foldl fl_add (Fin 0) (map (\<lambda>(_, est, weight). fl_mul est (Fin weight)) n_estimates))
                    total_weight;
                n = fl_clip (fl_mul weighted_n (Fin correction)) 1.5 6.0
            in Inr n)
         else Inl (ValueError ''No valid indices available for N content estimation''))"

subsection \<open>\<open>NitrogenEstimator.predict\<close>\<close>

text \<open>
  An entry of the time series is a dictionary with the keys \<open>'date'\<close> and \<open>'indices'\<close>.
  A prediction is the estimator's dictionary with the key \<open>'date'\<close> added. The loop
  keeps the list \<open>predictions\<close>; the second component of the state is what the
  \<open>except ValueError\<close> branch prints (the date and the message of the error).
\<close>

record 'd ts_data =
  date :: 'd
  indices :: index_map

record 'd prediction = estimation_result +
  pred_date :: 'd

definition with_date :: "estimation_result \<Rightarrow> 'd \<Rightarrow> 'd prediction" where
  "with_date r d = estimation_result.extend r \<lparr>pred_date = d\<rparr>"

fun predict_loop ::
  "'d ts_data list \<Rightarrow> 'd prediction list \<times> ('d \<times> string) list
     \<Rightarrow> 'd prediction list \<times> ('d \<times> string) list" where
  "predict_loop [] st = st"
| "predict_loop (ts # rest) (predictions, printed) =
     (case estimate_n_content_from_indices (indices ts) of
        Inr estimation_results \<Rightarrow>
          predict_loop rest (predictions @ [with_date estimation_results (date ts)], printed)
      | Inl (ValueError e) \<Rightarrow>
          predict_loop rest (predictions, printed @ [(date ts, e)]))"

definition predict :: "'d ts_data list \<Rightarrow> 'd prediction list" where
  "predict time_series_indices = fst (predict_loop time_series_indices ([], []))"

subsection \<open>\<open>NitrogenEstimator.get_estimation_quality\<close>\<close>

definition get_estimation_quality :: "uncertainty_metrics \<Rightarrow> string" where
  "get_estimation_quality u =
     (if r2_mean u > 0.85 \<and> rmse u < 0.35 then ''High Confidence''
      else if r2_mean u > 0.75 \<and> rmse u < 0.45 then ''Moderate Confidence''
      else ''Low Confidence'')"

subsection \<open>The specification's table-driven description\<close>

text \<open>
  The specification describes the estimator through a fixed regression table, one row
  per method: name (also the source index), slope, intercept, reference \<open>R\<^sup>2\<close> and
  reference RMSE. The definitions below follow the specification's words; the theorems
  compare the code with them.
\<close>

record spec_method =
  m_name :: string
  m_slope :: real
  m_intercept :: real
  m_r2 :: real
  m_rmse :: real

definition spec_regression_table :: "spec_method list" where
  "spec_regression_table =
     [\<lparr>m_name = ''NDRE'', m_slope = 4.14, m_intercept = 0.42, m_r2 = 0.89, m_rmse = 0.31\<rparr>,
      \<lparr>m_name = ''CIred-edge'', m_slope = 2.88, m_intercept = 0.97, m_r2 = 0.87, m_rmse = 0.34\<rparr>,
      \<lparr>m_name = ''MCARI'', m_slope = 3.52, m_intercept = 1.12, m_r2 = 0.83, m_rmse = 0.39\<rparr>]"

text \<open>The applicable methods: the rows whose source index is present, in table order.\<close>

definition spec_applicable :: "index_map \<Rightarrow> spec_method list" where
  "spec_applicable idx = filter (\<lambda>m. m_name m \<in> dom idx) spec_regression_table"

text \<open>The linear estimate of a method whose source index is present.\<close>

definition spec_method_estimate :: "index_map \<Rightarrow> spec_method \<Rightarrow> real" where
  "spec_method_estimate idx m = m_slope m * the (idx (m_name m)) + m_intercept m"

definition spec_r2_sum :: "index_map \<Rightarrow> real" where
  "spec_r2_sum idx = (\<Sum>m \<leftarrow> spec_applicable idx. m_r2 m)"

text \<open>The \<open>R\<^sup>2\<close>-weighted average \<open>\<Sum>(estimate\<^sub>i \<sqdot> r2\<^sub>i) / \<Sum>(r2\<^sub>i)\<close>.\<close>

definition spec_fused :: "index_map \<Rightarrow> real" where
  "spec_fused idx =
     (\<Sum>m \<leftarrow> spec_applicable idx. spec_method_estimate idx m * m_r2 m) / spec_r2_sum idx"

definition spec_savi_factor :: "index_map \<Rightarrow> real" where
  "spec_savi_factor idx =
     (if ''SAVI'' \<in> dom idx \<and> the (idx ''SAVI'') < 0.2 then 0.85
      else if ''SAVI'' \<in> dom idx \<and> the (idx ''SAVI'') > 0.7 then 1.12
      else 1.0)"

text \<open>At least one of the three contributing keys is present.\<close>

definition has_applicable :: "index_map \<Rightarrow> bool" where
  "has_applicable idx \<longleftrightarrow>
     ''NDRE'' \<in> dom idx \<or> ''CIred-edge'' \<in> dom idx \<or> ''MCARI'' \<in> dom idx"

subsection \<open>Reference inputs\<close>

text \<open>The index set of the specification's golden regression example.\<close>

definition golden_indices :: index_map where
  "golden_indices =
     [''NDRE'' \<mapsto> 0.5, ''CIred-edge'' \<mapsto> 2.0, ''MCARI'' \<mapsto> 0.3, ''SAVI'' \<mapsto> 0.6]"

text \<open>
  The specification's view of one step of the time-series loop: for an entry whose
  index set the estimator accepts, the record with the four fields of the estimator's
  result and the date of the entry; nothing for an entry the estimator rejects.
\<close>

definition dated_estimate :: "'d ts_data \<Rightarrow> 'd prediction option" where
  "dated_estimate ts =
     (case estimate_n_content_from_indices (indices ts) of
        Inl _ \<Rightarrow> None
      | Inr r \<Rightarrow>
          Some \<lparr>n_content = n_content r, confidence_intervals = confidence_intervals r,
                uncertainty = uncertainty r, method_weights = method_weights r,
                pred_date = date ts\<rparr>)"

section \<open>Properties\<close>

subsection \<open>The code against the table\<close>

text \<open>
  The three guarded blocks build exactly the rows of the table whose index is present,
  in table order; every later quantity is computed from these two lists.
\<close>

lemma n_estimates_table:
  "fst (mcari_block idx (ci_block idx (ndre_block idx ([], [])))) =
     map (\<lambda>m. (m_name m, spec_method_estimate idx m, m_r2 m)) (spec_applicable idx)"
  by (simp add: mcari_block_def ci_block_def ndre_block_def spec_applicable_def
      spec_regression_table_def spec_method_estimate_def Let_def domIff split: option.splits)

lemma cis_table:
  "snd (mcari_block idx (ci_block idx (ndre_block idx ([], [])))) =
     map (\<lambda>m. (m_name m, \<lparr>ci_estimate = spec_method_estimate idx m, ci_rmse = m_rmse m,
                           ci_r2 = m_r2 m\<rparr>)) (spec_applicable idx)"
  by (simp add: mcari_block_def ci_block_def ndre_block_def spec_applicable_def
      spec_regression_table_def spec_method_estimate_def Let_def domIff split: option.splits)

lemma savi_correction_spec: "savi_correction idx = spec_savi_factor idx"
  by (simp add: savi_correction_def spec_savi_factor_def domIff split: option.splits)

lemma applicable_nonempty: "spec_applicable idx \<noteq> [] \<longleftrightarrow> has_applicable idx"
  by (auto simp: spec_applicable_def spec_regression_table_def has_applicable_def)

lemma estimate_table:
  "estimate_n_content_from_indices idx =
     (if has_applicable idx then
        Inr \<lparr>n_content = clip (spec_fused idx * spec_savi_factor idx) 1.5 6.0,
             confidence_intervals =
               map (\<lambda>m. (m_name m, \<lparr>ci_estimate = spec_method_estimate idx m, ci_rmse = m_rmse m,
                                     ci_r2 = m_r2 m\<rparr>)) (spec_applicable idx),
             uncertainty =
               \<lparr>rmse = sqrt (mean (map (\<lambda>m. (m_rmse m)\<^sup>2) (spec_applicable idx))),
                r2_mean = mean (map m_r2 (spec_applicable idx)),
                sample_size = length (spec_applicable idx)\<rparr>,
             method_weights = map (\<lambda>m. (m_name m, m_r2 m / spec_r2_sum idx)) (spec_applicable idx)\<rparr>
      else Inl (ValueError ''No valid indices available for N content estimation''))"
  unfolding estimate_n_content_from_indices_def Let_def
    n_estimates_table cis_table savi_correction_spec
  by (simp add: spec_fused_def spec_r2_sum_def comp_def applicable_nonempty)

lemma estimate_succeeds:
  "has_applicable idx \<Longrightarrow> \<exists>r. estimate_n_content_from_indices idx = Inr r"
  by (simp add: estimate_table)

lemma estimate_success_applicable:
  "estimate_n_content_from_indices idx = Inr r \<Longrightarrow> has_applicable idx"
  by (simp add: estimate_table split: if_splits)

subsection \<open>The golden example\<close>

lemma golden_applicable: "spec_applicable golden_indices = spec_regression_table"
  by (simp add: spec_applicable_def golden_indices_def spec_regression_table_def)

lemma golden_fused:
  "spec_fused golden_indices = (2.49 * 0.89 + 6.73 * 0.87 + 2.176 * 0.83) / (0.89 + 0.87 + 0.83)"
  by (simp add: spec_fused_def spec_r2_sum_def golden_applicable spec_method_estimate_def)
    (simp add: spec_regression_table_def golden_indices_def)

lemma golden_savi: "spec_savi_factor golden_indices = 1"
  by (simp add: spec_savi_factor_def golden_indices_def)

lemma golden_has: "has_applicable golden_indices"
  by (simp add: has_applicable_def golden_indices_def)

lemma golden_n_content:
  assumes h: "estimate_n_content_from_indices golden_indices = Inr r"
  shows "n_content r = (2.49 * 0.89 + 6.73 * 0.87 + 2.176 * 0.83) / (0.89 + 0.87 + 0.83)"
proof -
  have c: "clip ((2.49 * 0.89 + 6.73 * 0.87 + 2.176 * 0.83) / (0.89 + 0.87 + 0.83)) 1.5 6.0
             = (2.49 * 0.89 + 6.73 * 0.87 + 2.176 * 0.83) / (0.89 + 0.87 + 0.83)"
    by (simp add: clip_def)
  from h have "n_content r =
      clip (spec_fused golden_indices * spec_savi_factor golden_indices) 1.5 6.0"
    by (auto simp: estimate_table split: if_splits)
  then show ?thesis by (simp only: golden_fused golden_savi mult_1_right c)
qed

subsection \<open>The fused estimate\<close>

text \<open>
  Claim C1, as amended. For every index mapping with at least one of the keys NDRE,
  CIred-edge, MCARI, the estimator returns a result whose \<open>n_content\<close> is the
  \<open>R\<^sup>2\<close>-weighted average of the applicable linear estimates of the table, times the
  SAVI factor, clipped to \<open>[1.5, 6.0]\<close>. For the golden input the result is exactly
  \<open>(2.49\<cdot>0.89 + 6.73\<cdot>0.87 + 2.176\<cdot>0.83) / (0.89 + 0.87 + 0.83)\<close>, which is
  \<open>9.87728 / 2.59 \<approx> 3.813622\<close> (within \<open>10\<^sup>-\<^sup>6\<close>), not 3.83.
\<close>

theorem estimate_n_content_fused:
  "(has_applicable idx \<longrightarrow>
      (\<exists>r. estimate_n_content_from_indices idx = Inr r \<and>
           n_content r = clip (spec_fused idx * spec_savi_factor idx) 1.5 6.0)) \<and>
   (\<exists>r. estimate_n_content_from_indices golden_indices = Inr r \<and>
        n_content r = (2.49 * 0.89 + 6.73 * 0.87 + 2.176 * 0.83) / (0.89 + 0.87 + 0.83) \<and>
        \<bar>n_content r - 3.813622\<bar> \<le> 1 / 10 ^ 6)"
proof -
  obtain r where h: "estimate_n_content_from_indices golden_indices = Inr r"
    using estimate_succeeds [OF golden_has] by blast
  have "\<bar>n_content r - 3.813622\<bar> \<le> 1 / 10 ^ 6"
    by (simp add: golden_n_content [OF h])
  with h golden_n_content [OF h] show ?thesis
    by (auto simp: estimate_table)
qed

text \<open>The theorem at the input \<open>{NDRE: 0.5}\<close>: the estimate is \<open>4.14\<cdot>0.5 + 0.42 = 2.49\<close>.\<close>

theorem estimate_n_content_fused_witness:
  "has_applicable [''NDRE'' \<mapsto> 0.5] \<and>
   (\<exists>r. estimate_n_content_from_indices [''NDRE'' \<mapsto> 0.5] = Inr r \<and> n_content r = 2.49)"
proof -
  have h: "has_applicable [''NDRE'' \<mapsto> 0.5]" by (simp add: has_applicable_def)
  have a: "spec_applicable [''NDRE'' \<mapsto> 0.5] = [hd spec_regression_table]"
    by (simp add: spec_applicable_def spec_regression_table_def)
  have c: "clip (spec_fused [''NDRE'' \<mapsto> 0.5] * spec_savi_factor [''NDRE'' \<mapsto> 0.5]) 1.5 6.0 = 2.49"
    unfolding spec_fused_def spec_r2_sum_def a
    by (simp add: spec_method_estimate_def spec_savi_factor_def spec_regression_table_def clip_def)
  from h estimate_n_content_fused [of "[''NDRE'' \<mapsto> 0.5]"]
  obtain r where r: "estimate_n_content_from_indices [''NDRE'' \<mapsto> 0.5] = Inr r"
    and n: "n_content r =
      clip (spec_fused [''NDRE'' \<mapsto> 0.5] * spec_savi_factor [''NDRE'' \<mapsto> 0.5]) 1.5 6.0"
    by blast
  from n c have "n_content r = 2.49" by (simp only:)
  with h r show ?thesis by blast
qed

text \<open>
  Claim C1 as stated gives the golden value as 3.83 within \<open>10\<^sup>-\<^sup>6\<close>. The code returns
  \<open>9.87728 / 2.59\<close>, which is further from 3.83 than that.
\<close>

theorem golden_value_counterexample:
  "\<exists>r. estimate_n_content_from_indices golden_indices = Inr r \<and>
       \<not> \<bar>n_content r - 3.83\<bar> \<le> 1 / 10 ^ 6"
proof -
  obtain r where h: "estimate_n_content_from_indices golden_indices = Inr r"
    using estimate_succeeds [OF golden_has] by blast
  have "\<not> \<bar>n_content r - 3.83\<bar> \<le> 1 / 10 ^ 6"
    by (simp add: golden_n_content [OF h])
  with h show ?thesis by blast
qed

subsection \<open>Clamping\<close>

text \<open>
  In exact arithmetic the clip works for every input: the result lies in \<open>[1.5, 6.0]\<close>,
  a value below the interval is saturated to 1.5 and a value above it to 6.0.
\<close>

lemma n_content_clamped_exact:
  "has_applicable idx \<Longrightarrow>
     \<exists>r. estimate_n_content_from_indices idx = Inr r \<and> 1.5 \<le> n_content r \<and> n_content r \<le> 6.0 \<and>
         (spec_fused idx * spec_savi_factor idx < 1.5 \<longrightarrow> n_content r = 1.5) \<and>
         (spec_fused idx * spec_savi_factor idx > 6.0 \<longrightarrow> n_content r = 6.0)"
  by (simp add: estimate_table clip_def)

text \<open>On the golden input the model on doubles gives the value of the exact model.\<close>

lemma ieee_golden:
  "n_content_ieee [''NDRE'' \<mapsto> Fin 0.5, ''CIred-edge'' \<mapsto> Fin 2.0, ''MCARI'' \<mapsto> Fin 0.3, ''SAVI'' \<mapsto> Fin 0.6]
     = Inr (Fin (9.87728 / 2.59))"
  by (simp add: n_content_ieee_def ndre_block_ieee_def ci_block_ieee_def mcari_block_ieee_def
      savi_correction_ieee_def fl_round_def overflow_threshold_def)

text \<open>NaN is the only way out of the interval: every other clipped value is inside.\<close>

lemma fl_clip_range:
  "case fl_clip y 1.5 6.0 of Fin x \<Rightarrow> 1.5 \<le> x \<and> x \<le> 6.0 | NaN \<Rightarrow> True | _ \<Rightarrow> False"
  by (cases y) simp_all

lemma ieee_clamped_unless_nan:
  assumes "n_content_ieee idx = Inr v"
  shows "case v of Fin x \<Rightarrow> 1.5 \<le> x \<and> x \<le> 6.0 | NaN \<Rightarrow> True | _ \<Rightarrow> False"
proof -
  from assms obtain y where "v = fl_clip y 1.5 6.0"
    by (auto simp: n_content_ieee_def Let_def split: if_splits)
  then show ?thesis by (simp only: fl_clip_range)
qed

text \<open>
  Claim C3 says that \<open>n_content\<close> lies in \<open>[1.5, 6.0]\<close> for every index mapping with a
  method key. On doubles it does not: NaN passes through \<open>np.clip\<close>. The loader computes
  \<open>{NDRE: nan, CIred-edge: nan, MCARI: nan, SAVI: 0.0}\<close> for an image whose band means
  are all 0, and the function returns \<open>n_content = nan\<close> for it; one NaN index among
  valid ones is enough; and the finite inputs \<open>NDRE = -2\<^sup>1\<^sup>0\<^sup>2\<^sup>3\<close>,
  \<open>CIred-edge = 2\<^sup>1\<^sup>0\<^sup>2\<^sup>3\<close> overflow to \<open>-inf\<close> and \<open>+inf\<close>, whose sum is NaN.
\<close>

theorem n_content_nan_escapes_clamp:
  "n_content_ieee
     [''NDRE'' \<mapsto> NaN, ''CIred-edge'' \<mapsto> NaN, ''MCARI'' \<mapsto> NaN, ''SAVI'' \<mapsto> Fin 0]
     = Inr NaN \<and>
   n_content_ieee [''NDRE'' \<mapsto> NaN] = Inr NaN \<and>
   n_content_ieee [''NDRE'' \<mapsto> Fin 0.5, ''CIred-edge'' \<mapsto> NaN] = Inr NaN \<and>
   n_content_ieee [''NDRE'' \<mapsto> Fin (- (2 ^ 1023)), ''CIred-edge'' \<mapsto> Fin (2 ^ 1023)] = Inr NaN"
  by (simp add: n_content_ieee_def ndre_block_ieee_def ci_block_ieee_def mcari_block_ieee_def
      savi_correction_ieee_def fl_round_def overflow_threshold_def)

subsection \<open>When the estimator raises\<close>

text \<open>
  Claim C8. The estimator raises its \<open>ValueError\<close> on the empty mapping and on every
  mapping that has none of the keys NDRE, CIred-edge, MCARI; in particular on \<open>{}\<close> and on
  \<open>{'NDVI': -1.0}\<close>.
\<close>

theorem estimate_rejects_no_method:
  "estimate_n_content_from_indices Map.empty
     = Inl (ValueError ''No valid indices available for N content estimation'') \<and>
   (''NDRE'' \<notin> dom idx \<and> ''CIred-edge'' \<notin> dom idx \<and> ''MCARI'' \<notin> dom idx \<longrightarrow>
      estimate_n_content_from_indices idx
        = Inl (ValueError ''No valid indices available for N content estimation'')) \<and>
   estimate_n_content_from_indices [''NDVI'' \<mapsto> - 1.0]
     = Inl (ValueError ''No valid indices available for N content estimation'')"
  by (simp add: estimate_table has_applicable_def)

text \<open>The theorem at \<open>{SAVI: 0.1, GNDVI: 0.65}\<close>, a non-empty mapping without a method key.\<close>

theorem estimate_rejects_no_method_witness:
  "''NDRE'' \<notin> dom [''SAVI'' \<mapsto> 0.1 :: real, ''GNDVI'' \<mapsto> 0.65] \<and>
   ''CIred-edge'' \<notin> dom [''SAVI'' \<mapsto> 0.1 :: real, ''GNDVI'' \<mapsto> 0.65] \<and>
   ''MCARI'' \<notin> dom [''SAVI'' \<mapsto> 0.1 :: real, ''GNDVI'' \<mapsto> 0.65] \<and>
   estimate_n_content_from_indices [''SAVI'' \<mapsto> 0.1, ''GNDVI'' \<mapsto> 0.65]
     = Inl (ValueError ''No valid indices available for N content estimation'')"
  using estimate_rejects_no_method [of "[''SAVI'' \<mapsto> 0.1, ''GNDVI'' \<mapsto> 0.65]"]
  by simp

lemma single_ndre:
  "clip (spec_fused [''NDRE'' \<mapsto> - 5.0] * spec_savi_factor [''NDRE'' \<mapsto> - 5.0]) 1.5 6.0 = 1.5"
proof -
  have a: "spec_applicable [''NDRE'' \<mapsto> - 5.0] = [hd spec_regression_table]"
    by (simp add: spec_applicable_def spec_regression_table_def)
  show ?thesis
    unfolding spec_fused_def spec_r2_sum_def a
    by (simp add: spec_method_estimate_def spec_savi_factor_def spec_regression_table_def clip_def)
qed

lemma single_ci:
  "clip (spec_fused [''CIred-edge'' \<mapsto> 1000.0] * spec_savi_factor [''CIred-edge'' \<mapsto> 1000.0])
     1.5 6.0 = 6.0"
proof -
  have a: "spec_applicable [''CIred-edge'' \<mapsto> 1000.0] = [hd (tl spec_regression_table)]"
    by (simp add: spec_applicable_def spec_regression_table_def)
  show ?thesis
    unfolding spec_fused_def spec_r2_sum_def a
    by (simp add: spec_method_estimate_def spec_savi_factor_def spec_regression_table_def clip_def)
qed

text \<open>
  Claim C9. The estimator raises if and only if none of the keys NDRE, CIred-edge, MCARI
  is present; whenever one is present it returns a result for all values, with no domain
  or range check: \<open>NDRE = -5.0\<close> gives the clamped estimate 1.5 and
  \<open>CIred-edge = 1000.0\<close> gives 6.0.
\<close>

theorem estimate_raises_iff_no_method:
  "((\<exists>e. estimate_n_content_from_indices idx = Inl e) \<longleftrightarrow> \<not> has_applicable idx) \<and>
   ((\<exists>r. estimate_n_content_from_indices idx = Inr r) \<longleftrightarrow> has_applicable idx) \<and>
   (\<exists>r. estimate_n_content_from_indices [''NDRE'' \<mapsto> - 5.0] = Inr r \<and> n_content r = 1.5) \<and>
   (\<exists>r. estimate_n_content_from_indices [''CIred-edge'' \<mapsto> 1000.0] = Inr r \<and> n_content r = 6.0)"
proof -
  have 1: "(\<exists>e. estimate_n_content_from_indices idx = Inl e) \<longleftrightarrow> \<not> has_applicable idx"
    by (simp add: estimate_table)
  have 2: "(\<exists>r. estimate_n_content_from_indices idx = Inr r) \<longleftrightarrow> has_applicable idx"
    by (simp add: estimate_table)
  have 3: "\<exists>r. estimate_n_content_from_indices [''NDRE'' \<mapsto> - 5.0] = Inr r \<and> n_content r = 1.5"
    unfolding estimate_table single_ndre by (simp add: has_applicable_def)
  have 4: "\<exists>r. estimate_n_content_from_indices [''CIred-edge'' \<mapsto> 1000.0] = Inr r \<and>
               n_content r = 6.0"
    unfolding estimate_table single_ci by (simp add: has_applicable_def)
  from 1 2 3 4 show ?thesis by blast
qed

text \<open>The theorem at \<open>{MCARI: -100, NDVI: 7}\<close> (returns) and at \<open>{NDVI: 7}\<close> (raises).\<close>

theorem estimate_raises_iff_no_method_witness:
  "has_applicable [''MCARI'' \<mapsto> - 100, ''NDVI'' \<mapsto> 7] \<and>
   (\<exists>r. estimate_n_content_from_indices [''MCARI'' \<mapsto> - 100, ''NDVI'' \<mapsto> 7] = Inr r) \<and>
   \<not> has_applicable [''NDVI'' \<mapsto> 7] \<and>
   (\<exists>e. estimate_n_content_from_indices [''NDVI'' \<mapsto> 7] = Inl e)"
proof -
  have a: "has_applicable [''MCARI'' \<mapsto> - 100, ''NDVI'' \<mapsto> 7]"
    by (simp add: has_applicable_def)
  have b: "\<not> has_applicable [''NDVI'' \<mapsto> 7]"
    by (simp add: has_applicable_def)
  from a b estimate_raises_iff_no_method [of "[''MCARI'' \<mapsto> - 100, ''NDVI'' \<mapsto> 7]"]
    estimate_raises_iff_no_method [of "[''NDVI'' \<mapsto> 7]"]
  show ?thesis by blast
qed

subsection \<open>No validation of the supplied values\<close>

lemma ci_ndre_applicable:
  "spec_applicable [''NDRE'' \<mapsto> 0.5, ''CIred-edge'' \<mapsto> - 2.0] = butlast spec_regression_table"
  by (simp add: spec_applicable_def spec_regression_table_def)

text \<open>
  Claim C2 as stated asks for a validation error when a supplied value is outside its
  legal domain. \<open>CIred-edge = NIR / RedEdge - 1\<close> cannot be below \<open>-1\<close> for non-negative
  reflectances, yet on \<open>{NDRE: 0.5, CIred-edge: -2.0}\<close> the code returns a result: both
  methods are counted and the fused value \<open>(2.49\<cdot>0.89 - 4.79\<cdot>0.87) / 1.76\<close> is clamped to 1.5.
\<close>

theorem out_of_domain_value_counterexample:
  "has_applicable [''NDRE'' \<mapsto> 0.5, ''CIred-edge'' \<mapsto> - 2.0] \<and>
   (\<exists>r. estimate_n_content_from_indices [''NDRE'' \<mapsto> 0.5, ''CIred-edge'' \<mapsto> - 2.0] = Inr r \<and>
        n_content r = 1.5 \<and> sample_size (uncertainty r) = 2)"
proof -
  have h: "has_applicable [''NDRE'' \<mapsto> 0.5, ''CIred-edge'' \<mapsto> - 2.0]"
    by (simp add: has_applicable_def)
  have c: "clip (spec_fused [''NDRE'' \<mapsto> 0.5, ''CIred-edge'' \<mapsto> - 2.0]
                 * spec_savi_factor [''NDRE'' \<mapsto> 0.5, ''CIred-edge'' \<mapsto> - 2.0]) 1.5 6.0 = 1.5"
    unfolding spec_fused_def spec_r2_sum_def ci_ndre_applicable
    by (simp add: spec_method_estimate_def spec_savi_factor_def spec_regression_table_def clip_def)
  have l: "length (spec_applicable [''NDRE'' \<mapsto> 0.5, ''CIred-edge'' \<mapsto> - 2.0]) = 2"
    unfolding ci_ndre_applicable by (simp add: spec_regression_table_def)
  show ?thesis
    unfolding estimate_table c l using h by simp
qed

text \<open>
  Claim C2, as amended. For every index mapping with at least one applicable key the
  estimator raises no error, whatever the supplied values are, and every applicable
  index that is present contributes: \<open>confidence_intervals\<close> holds, for each table row
  whose index is present, the linear estimate computed from the supplied value as it is.
\<close>

theorem estimate_uses_every_supplied_value:
  "has_applicable idx \<Longrightarrow>
     \<exists>r. estimate_n_content_from_indices idx = Inr r \<and>
         confidence_intervals r =
           map (\<lambda>m. (m_name m, \<lparr>ci_estimate = m_slope m * the (idx (m_name m)) + m_intercept m,
                                 ci_rmse = m_rmse m, ci_r2 = m_r2 m\<rparr>))
               (filter (\<lambda>m. m_name m \<in> dom idx) spec_regression_table)"
  by (simp add: estimate_table spec_method_estimate_def spec_applicable_def)

text \<open>The theorem at \<open>{MCARI: -7}\<close>: the method estimate is \<open>3.52\<cdot>(-7) + 1.12 = -23.52\<close>.\<close>

theorem estimate_uses_every_supplied_value_witness:
  "has_applicable [''MCARI'' \<mapsto> - 7] \<and>
   (\<exists>r. estimate_n_content_from_indices [''MCARI'' \<mapsto> - 7] = Inr r \<and>
        confidence_intervals r =
          [(''MCARI'', \<lparr>ci_estimate = - 23.52, ci_rmse = 0.39, ci_r2 = 0.83\<rparr>)])"
proof -
  have h: "has_applicable [''MCARI'' \<mapsto> - 7]"
    by (simp add: has_applicable_def)
  from estimate_uses_every_supplied_value [OF h] h show ?thesis
    by (simp add: spec_regression_table_def)
qed

subsection \<open>Indices the estimator never reads\<close>

text \<open>
  Claim C10. Two index mappings that agree on the presence and the values of NDRE,
  CIred-edge, MCARI and SAVI give the same outcome (the same result, or the same error),
  however they differ elsewhere, in particular in NDVI and GNDVI.
\<close>

theorem estimate_ignores_other_indices:
  assumes "idx1 ''NDRE'' = idx2 ''NDRE''" and "idx1 ''CIred-edge'' = idx2 ''CIred-edge''"
    and "idx1 ''MCARI'' = idx2 ''MCARI''" and "idx1 ''SAVI'' = idx2 ''SAVI''"
  shows "estimate_n_content_from_indices idx1 = estimate_n_content_from_indices idx2"
  using assms
  by (simp add: estimate_n_content_from_indices_def ndre_block_def ci_block_def mcari_block_def
      savi_correction_def)

text \<open>The theorem at two mappings that differ in NDVI and GNDVI only.\<close>

theorem estimate_ignores_other_indices_witness:
  "estimate_n_content_from_indices
     [''NDRE'' \<mapsto> 0.5, ''SAVI'' \<mapsto> 0.6, ''NDVI'' \<mapsto> 0.7]
   = estimate_n_content_from_indices
     [''NDRE'' \<mapsto> 0.5, ''SAVI'' \<mapsto> 0.6, ''GNDVI'' \<mapsto> - 3, ''NDVI'' \<mapsto> 12]"
  by (rule estimate_ignores_other_indices) simp_all

subsection \<open>Quality tiers\<close>

text \<open>
  Claim C7. \<open>get_estimation_quality\<close> answers "High Confidence" exactly when
  \<open>r2_mean > 0.85\<close> and \<open>rmse < 0.35\<close>; otherwise "Moderate Confidence" exactly when
  \<open>r2_mean > 0.75\<close> and \<open>rmse < 0.45\<close>; otherwise "Low Confidence". Both conditions of a
  tier must hold: \<open>r2_mean = 0.9\<close> with \<open>rmse = 0.4\<close> is only moderate, and with
  \<open>rmse = 0.5\<close> it is low. The three examples of the specification are included.
\<close>

theorem estimation_quality_tiers:
  "(get_estimation_quality u = ''High Confidence'' \<longleftrightarrow> r2_mean u > 0.85 \<and> rmse u < 0.35) \<and>
   (get_estimation_quality u = ''Moderate Confidence'' \<longleftrightarrow>
      \<not> (r2_mean u > 0.85 \<and> rmse u < 0.35) \<and> r2_mean u > 0.75 \<and> rmse u < 0.45) \<and>
   (get_estimation_quality u = ''Low Confidence'' \<longleftrightarrow>
      \<not> (r2_mean u > 0.85 \<and> rmse u < 0.35) \<and> \<not> (r2_mean u > 0.75 \<and> rmse u < 0.45)) \<and>
   get_estimation_quality \<lparr>rmse = 0.3, r2_mean = 0.9, sample_size = n\<rparr> = ''High Confidence'' \<and>
   get_estimation_quality \<lparr>rmse = 0.4, r2_mean = 0.8, sample_size = n\<rparr> = ''Moderate Confidence'' \<and>
   get_estimation_quality \<lparr>rmse = 0.5, r2_mean = 0.7, sample_size = n\<rparr> = ''Low Confidence'' \<and>
   get_estimation_quality \<lparr>rmse = 0.4, r2_mean = 0.9, sample_size = n\<rparr> = ''Moderate Confidence'' \<and>
   get_estimation_quality \<lparr>rmse = 0.5, r2_mean = 0.9, sample_size = n\<rparr> = ''Low Confidence''"
  by (simp add: get_estimation_quality_def)

text \<open>The theorem at \<open>r2_mean = 0.99\<close>, \<open>rmse = 0.36\<close>: a high \<open>R\<^sup>2\<close> alone is not enough.\<close>

theorem estimation_quality_tiers_witness:
  "get_estimation_quality \<lparr>rmse = 0.36, r2_mean = 0.99, sample_size = 3\<rparr> \<noteq> ''High Confidence'' \<and>
   get_estimation_quality \<lparr>rmse = 0.36, r2_mean = 0.99, sample_size = 3\<rparr> = ''Moderate Confidence''"
  using estimation_quality_tiers [of "\<lparr>rmse = 0.36, r2_mean = 0.99, sample_size = 3\<rparr>" 3]
  by simp

subsection \<open>The time-series loop\<close>

text \<open>Adding the key \<open>'date'\<close> keeps the four entries of the estimator's dictionary.\<close>

lemma with_date_fields:
  "with_date r d =
     \<lparr>n_content = n_content r, confidence_intervals = confidence_intervals r,
      uncertainty = uncertainty r, method_weights = method_weights r, pred_date = d\<rparr>"
  by (cases r) (simp add: with_date_def estimation_result.extend_def)

lemma predict_loop_successes:
  "fst (predict_loop ts (ps, pr)) = ps @ List.map_filter dated_estimate ts"
proof (induction ts arbitrary: ps pr)
  case Nil
  show ?case by simp
next
  case (Cons t ts)
  show ?case
  proof (cases "estimate_n_content_from_indices (indices t)")
    case (Inl e)
    then show ?thesis
      by (cases e) (simp add: Cons.IH dated_estimate_def)
  next
    case (Inr r)
    then show ?thesis
      by (simp add: Cons.IH dated_estimate_def with_date_fields)
  qed
qed

text \<open>
  Claim C4. \<open>predict\<close> is a total function of the input sequence (the only exception the
  estimator raises is the one the loop catches) and returns, in input order, exactly one
  record for each entry the estimator accepts: the estimator's own \<open>n_content\<close>,
  \<open>confidence_intervals\<close>, \<open>uncertainty\<close> and \<open>method_weights\<close> for that entry, with the
  entry's date. \<open>predict []\<close> is empty, and a sequence of one accepted and one rejected
  entry, in either order, gives exactly the one record of the accepted entry.
\<close>

theorem predict_returns_successes:
  "predict ts = List.map_filter dated_estimate ts \<and>
   predict ([] :: 'd ts_data list) = [] \<and>
   (\<forall>(v :: 'd ts_data) b r e.
      estimate_n_content_from_indices (indices v) = Inr r \<and>
      estimate_n_content_from_indices (indices b) = Inl e \<longrightarrow>
        predict [v, b] =
          [\<lparr>n_content = n_content r, confidence_intervals = confidence_intervals r,
            uncertainty = uncertainty r, method_weights = method_weights r,
            pred_date = date v\<rparr>] \<and>
        predict [b, v] =
          [\<lparr>n_content = n_content r, confidence_intervals = confidence_intervals r,
            uncertainty = uncertainty r, method_weights = method_weights r,
            pred_date = date v\<rparr>])"
  for ts :: "'d ts_data list"
proof -
  have p: "predict xs = List.map_filter dated_estimate xs" for xs :: "'d ts_data list"
    unfolding predict_def by (rule predict_loop_successes [of xs "[]" "[]", simplified])
  show ?thesis
    unfolding p by (simp add: dated_estimate_def)
qed

text \<open>The estimator's result on \<open>{NDRE: 0.5}\<close>, field by field.\<close>

lemma ndre_only_result:
  "estimate_n_content_from_indices [''NDRE'' \<mapsto> 0.5] =
     Inr \<lparr>n_content = 2.49,
          confidence_intervals = [(''NDRE'', \<lparr>ci_estimate = 2.49, ci_rmse = 0.31, ci_r2 = 0.89\<rparr>)],
          uncertainty = \<lparr>rmse = 0.31, r2_mean = 0.89, sample_size = 1\<rparr>,
          method_weights = [(''NDRE'', 1)]\<rparr>"
  by (simp add: estimate_n_content_from_indices_def Let_def ndre_block_def ci_block_def
      mcari_block_def savi_correction_def clip_def mean_def)

text \<open>
  The theorem at the entries \<open>{date: 1, indices: {NDRE: 0.5}}\<close> (accepted) and
  \<open>{date: 2, indices: {NDVI: -1.0}}\<close> (rejected): the one record returned has
  \<open>n_content = 2.49\<close>, the NDRE interval, one method of weight 1, and the date 1.
\<close>

theorem predict_returns_successes_witness:
  "predict [\<lparr>date = 1 :: nat, indices = [''NDRE'' \<mapsto> 0.5]\<rparr>,
            \<lparr>date = 2, indices = [''NDVI'' \<mapsto> - 1.0]\<rparr>]
     = [\<lparr>n_content = 2.49,
         confidence_intervals = [(''NDRE'', \<lparr>ci_estimate = 2.49, ci_rmse = 0.31, ci_r2 = 0.89\<rparr>)],
         uncertainty = \<lparr>rmse = 0.31, r2_mean = 0.89, sample_size = 1\<rparr>,
         method_weights = [(''NDRE'', 1)], pred_date = 1\<rparr>] \<and>
   predict [\<lparr>date = 2 :: nat, indices = [''NDVI'' \<mapsto> - 1.0]\<rparr>,
            \<lparr>date = 1, indices = [''NDRE'' \<mapsto> 0.5]\<rparr>]
     = [\<lparr>n_content = 2.49,
         confidence_intervals = [(''NDRE'', \<lparr>ci_estimate = 2.49, ci_rmse = 0.31, ci_r2 = 0.89\<rparr>)],
         uncertainty = \<lparr>rmse = 0.31, r2_mean = 0.89, sample_size = 1\<rparr>,
         method_weights = [(''NDRE'', 1)], pred_date = 1\<rparr>]"
proof -
  let ?v = "\<lparr>date = 1 :: nat, indices = [''NDRE'' \<mapsto> 0.5]\<rparr>"
  let ?b = "\<lparr>date = 2 :: nat, indices = [''NDVI'' \<mapsto> - 1.0]\<rparr>"
  have v: "estimate_n_content_from_indices (indices ?v) =
     Inr \<lparr>n_content = 2.49,
          confidence_intervals = [(''NDRE'', \<lparr>ci_estimate = 2.49, ci_rmse = 0.31, ci_r2 = 0.89\<rparr>)],
          uncertainty = \<lparr>rmse = 0.31, r2_mean = 0.89, sample_size = 1\<rparr>,
          method_weights = [(''NDRE'', 1)]\<rparr>"
    using ndre_only_result by simp
  have b: "estimate_n_content_from_indices (indices ?b)
             = Inl (ValueError ''No valid indices available for N content estimation'')"
    by (simp add: estimate_table has_applicable_def)
  have k: "predict [v, b] =
          [\<lparr>n_content = n_content r, confidence_intervals = confidence_intervals r,
            uncertainty = uncertainty r, method_weights = method_weights r,
            pred_date = date v\<rparr>] \<and>
        predict [b, v] =
          [\<lparr>n_content = n_content r, confidence_intervals = confidence_intervals r,
            uncertainty = uncertainty r, method_weights = method_weights r,
            pred_date = date v\<rparr>]"
    if "estimate_n_content_from_indices (indices v) = Inr r"
      and "estimate_n_content_from_indices (indices b) = Inl e"
    for v b :: "nat ts_data" and r e
    using predict_returns_successes [of "[] :: nat ts_data list"] that by blast
  from k [OF v b] show ?thesis by simp
qed

subsection \<open>Weights and uncertainty\<close>

lemma sum_list_divide_const:
  "sum_list (map (\<lambda>x. f x / c) xs) = sum_list (map f xs) / (c :: real)"
  by (induction xs) (simp_all add: add_divide_distrib)

lemma spec_r2_sum_pos: "has_applicable idx \<Longrightarrow> 0 < spec_r2_sum idx"
  by (auto simp: spec_r2_sum_def spec_applicable_def spec_regression_table_def has_applicable_def)

lemma distinct_applicable_names: "distinct (map m_name (spec_applicable idx))"
  unfolding spec_applicable_def
  by (rule distinct_map_filter) (simp add: spec_regression_table_def)

text \<open>
  Claim C5. Whenever the estimator returns, \<open>method_weights\<close> maps each applicable method
  (each once) to its reference \<open>R\<^sup>2\<close> divided by the sum of the applicable methods'
  \<open>R\<^sup>2\<close>, and the weights sum to 1, so also within the tolerance \<open>10\<^sup>-\<^sup>9\<close>.
\<close>

theorem method_weights_normalised:
  assumes "estimate_n_content_from_indices idx = Inr r"
  shows "method_weights r =
           map (\<lambda>m. (m_name m, m_r2 m / (\<Sum>a \<leftarrow> spec_applicable idx. m_r2 a))) (spec_applicable idx) \<and>
         distinct (map fst (method_weights r)) \<and>
         sum_list (map snd (method_weights r)) = 1 \<and>
         \<bar>sum_list (map snd (method_weights r)) - 1\<bar> \<le> 1 / 10 ^ 9"
proof -
  from assms have h: "has_applicable idx"
    by (rule estimate_success_applicable)
  from assms h have w: "method_weights r =
      map (\<lambda>m. (m_name m, m_r2 m / spec_r2_sum idx)) (spec_applicable idx)"
    by (auto simp: estimate_table)
  have d: "distinct (map fst (method_weights r))"
    unfolding w by (simp add: comp_def distinct_applicable_names)
  have "sum_list (map snd (method_weights r)) = spec_r2_sum idx / spec_r2_sum idx"
    unfolding w by (simp add: comp_def sum_list_divide_const) (simp add: spec_r2_sum_def)
  with spec_r2_sum_pos [OF h] have s: "sum_list (map snd (method_weights r)) = 1"
    by simp
  from w d s show ?thesis by (simp add: spec_r2_sum_def)
qed

lemma two_applicable:
  "spec_applicable [''NDRE'' \<mapsto> 0.5, ''MCARI'' \<mapsto> 0.3]
     = [hd spec_regression_table, last spec_regression_table]"
  by (simp add: spec_applicable_def spec_regression_table_def)

text \<open>The theorem at \<open>{NDRE: 0.5, MCARI: 0.3}\<close>: the weights are \<open>0.89/1.72\<close> and \<open>0.83/1.72\<close>.\<close>

theorem method_weights_normalised_witness:
  "\<exists>r. estimate_n_content_from_indices [''NDRE'' \<mapsto> 0.5, ''MCARI'' \<mapsto> 0.3] = Inr r \<and>
       method_weights r = [(''NDRE'', 0.89 / (0.89 + 0.83)), (''MCARI'', 0.83 / (0.89 + 0.83))] \<and>
       sum_list (map snd (method_weights r)) = 1"
proof -
  have "has_applicable [''NDRE'' \<mapsto> 0.5, ''MCARI'' \<mapsto> 0.3]"
    by (simp add: has_applicable_def)
  then obtain r where r: "estimate_n_content_from_indices [''NDRE'' \<mapsto> 0.5, ''MCARI'' \<mapsto> 0.3] = Inr r"
    using estimate_succeeds by blast
  from method_weights_normalised [OF r]
  have "method_weights r = [(''NDRE'', 0.89 / (0.89 + 0.83)), (''MCARI'', 0.83 / (0.89 + 0.83))]"
    and "sum_list (map snd (method_weights r)) = 1"
    unfolding two_applicable by (simp_all add: spec_regression_table_def)
  with r show ?thesis by blast
qed

text \<open>
  Claim C6. Whenever the estimator returns, the uncertainty record has \<open>rmse\<close> equal to
  the square root of the mean of the squared reference RMSE values of the applicable
  methods, \<open>r2_mean\<close> equal to the arithmetic mean of their reference \<open>R\<^sup>2\<close> values, and
  \<open>sample_size\<close> equal to the number of applicable methods, which is at least 1.
\<close>

theorem uncertainty_aggregate:
  assumes "estimate_n_content_from_indices idx = Inr r"
  shows "rmse (uncertainty r) =
           sqrt ((\<Sum>m \<leftarrow> spec_applicable idx. (m_rmse m)\<^sup>2) / real (length (spec_applicable idx))) \<and>
         r2_mean (uncertainty r) =
           (\<Sum>m \<leftarrow> spec_applicable idx. m_r2 m) / real (length (spec_applicable idx)) \<and>
         sample_size (uncertainty r) = length (spec_applicable idx) \<and>
         1 \<le> sample_size (uncertainty r)"
proof -
  from assms have h: "has_applicable idx"
    by (rule estimate_success_applicable)
  then have "spec_applicable idx \<noteq> []"
    by (simp add: applicable_nonempty)
  then have "1 \<le> length (spec_applicable idx)"
    by (cases "spec_applicable idx") simp_all
  with assms h show ?thesis
    by (auto simp: estimate_table mean_def)
qed

text \<open>
  The theorem at \<open>{NDRE: 0.5, MCARI: 0.3}\<close>: two methods, mean \<open>R\<^sup>2\<close> of 0.86 and RMSE
  \<open>sqrt ((0.31\<^sup>2 + 0.39\<^sup>2) / 2)\<close>.
\<close>

theorem uncertainty_aggregate_witness:
  "\<exists>r. estimate_n_content_from_indices [''NDRE'' \<mapsto> 0.5, ''MCARI'' \<mapsto> 0.3] = Inr r \<and>
       rmse (uncertainty r) = sqrt ((0.31\<^sup>2 + 0.39\<^sup>2) / 2) \<and>
       r2_mean (uncertainty r) = 0.86 \<and>
       sample_size (uncertainty r) = 2"
proof -
  have "has_applicable [''NDRE'' \<mapsto> 0.5, ''MCARI'' \<mapsto> 0.3]"
    by (simp add: has_applicable_def)
  then obtain r where r: "estimate_n_content_from_indices [''NDRE'' \<mapsto> 0.5, ''MCARI'' \<mapsto> 0.3] = Inr r"
    using estimate_succeeds by blast
  from uncertainty_aggregate [OF r]
  have "rmse (uncertainty r) = sqrt ((0.31\<^sup>2 + 0.39\<^sup>2) / 2)"
    and "r2_mean (uncertainty r) = 0.86"
    and "sample_size (uncertainty r) = 2"
    unfolding two_applicable by (simp_all add: spec_regression_table_def)
  with r show ?thesis by blast
qed

end
